theory Spec2Isabelle
  imports Complex_Main "HOL-Library.Char_ord" "HOL-Library.List_Lexorder"
begin

section \<open>Python strings and slices\<close>







definition is_space :: "char \<Rightarrow> bool" where
  "is_space c = (let n = (of_char c :: nat) in (9 \<le> n \<and> n \<le> 13) \<or> (28 \<le> n \<and> n \<le> 32))"

definition strip :: "string \<Rightarrow> string" where
  "strip s = rev (dropWhile is_space (rev (dropWhile is_space s)))"

text \<open>
  \<^verbatim>\<open>s.split()\<close>: the maximal runs of characters that are not white space, in order.
  \<open>split_ws cur s\<close> carries the word being read, reversed.
\<close>

fun split_ws :: "string \<Rightarrow> string \<Rightarrow> string list" where
  "split_ws cur [] = (if cur = [] then [] else [rev cur])"
| "split_ws cur (c # cs) =
     (if is_space c then (if cur = [] then split_ws [] cs else rev cur # split_ws [] cs)
      else split_ws (c # cur) cs)"

definition py_split :: "string \<Rightarrow> string list" where
  "py_split s = split_ws [] s"

text \<open>\<^verbatim>\<open>sep.join(xs)\<close>.\<close>

fun join :: "string \<Rightarrow> string list \<Rightarrow> string" where
  "join sep [] = []"
| "join sep [x] = x"
| "join sep (x # y # ys) = x @ sep @ join sep (y # ys)"

text \<open>
  Python slices on a list of length \<open>n\<close>: a negative bound counts from the end, and
  every bound is clamped to \<open>0..n\<close>.
\<close>

definition slice_bound :: "nat \<Rightarrow> int \<Rightarrow> nat" where
  "slice_bound n i = (if i < 0 then nat (int n + i) else min n (nat i))"

definition py_slice :: "'a list \<Rightarrow> int \<Rightarrow> int \<Rightarrow> 'a list" where
  "py_slice xs a b = take (slice_bound (length xs) b - slice_bound (length xs) a)
                          (drop (slice_bound (length xs) a) xs)"

text \<open>\<^verbatim>\<open>xs[:k]\<close> and \<^verbatim>\<open>xs[a:]\<close>.\<close>

definition slice_to :: "'a list \<Rightarrow> int \<Rightarrow> 'a list" where
  "slice_to xs k = take (slice_bound (length xs) k) xs"

definition slice_from :: "'a list \<Rightarrow> int \<Rightarrow> 'a list" where
  "slice_from xs a = drop (slice_bound (length xs) a) xs"

text \<open>\<^verbatim>\<open>str(n)\<close> for a natural number: its decimal digits.\<close>

fun str_nat :: "nat \<Rightarrow> string" where
  "str_nat n = (if n < 10 then [char_of (48 + n)]
                else str_nat (n div 10) @ [char_of (48 + n mod 10)])"

text \<open>\<^verbatim>\<open>s.split('\n\n')\<close>: the pieces between blank-line separators, read left to right.\<close>

fun split_paragraphs :: "string \<Rightarrow> string \<Rightarrow> string list" where
  "split_paragraphs cur [] = [rev cur]"
| "split_paragraphs cur [c] = [rev (c # cur)]"
| "split_paragraphs cur (c # d # cs) =
     (if c = CHR 0x0A \<and> d = CHR 0x0A then rev cur # split_paragraphs [] cs
      else split_paragraphs (c # cur) (d # cs))"

section \<open>Document chunks and the chunker\<close>

datatype error = EncoderError | ChatError | AttributeError

text \<open>
  \<^verbatim>\<open>DocumentChunk\<close>. The constructor takes the two library computations it runs as
  parameters: \<open>md5\<close>, the hex digest of the text, and \<open>articles\<close>, the article references
  of \<^verbatim>\<open>_extract_articles\<close> (a regular-expression search whose result list has the order
  of a Python set).
\<close>

record 'e chunk =
  chunk_text :: string
  page_number :: nat
  chunk_index :: nat
  document_name :: string
  embedding :: "'e option"
  text_hash :: string
  extracted_articles :: "string list"

definition DocumentChunk ::
    "(string \<Rightarrow> string) \<Rightarrow> (string \<Rightarrow> string list) \<Rightarrow> string \<Rightarrow> nat \<Rightarrow> nat \<Rightarrow> string \<Rightarrow> 'e chunk" where
  "DocumentChunk md5 articles txt page_num idx name =
     \<lparr>chunk_text = txt, page_number = page_num, chunk_index = idx, document_name = name,
      embedding = None, text_hash = md5 txt, extracted_articles = articles txt\<rparr>"

text \<open>\<^verbatim>\<open>DocumentProcessor\<close>: its two sizes, 800 and 150 unless the caller says otherwise.\<close>

record processor =
  chunk_size :: int
  overlap :: int


text \<open>
  The inner loop \<^verbatim>\<open>for i in range(0, len(words), chunk_size - overlap)\<close>, from index
  \<open>i\<close> on, for a positive step (a negative step gives the empty range): the window
  \<^verbatim>\<open>words[i:i + chunk_size]\<close> joined by single spaces is appended as a chunk when its
  stripped length exceeds 100.
\<close>

function window_loop ::
    "(string \<Rightarrow> string) \<Rightarrow> (string \<Rightarrow> string list) \<Rightarrow> processor \<Rightarrow> nat \<Rightarrow> string list \<Rightarrow> int
      \<Rightarrow> 'e chunk list \<Rightarrow> 'e chunk list" where
  "window_loop md5 articles P page_num words i chunks =
     (if 0 < chunk_size P - overlap P \<and> i < int (length words) then
        (let chunk_txt = join '' '' (py_slice words i (i + chunk_size P)) in
         window_loop md5 articles P page_num words (i + (chunk_size P - overlap P))
           (if 100 < length (strip chunk_txt)
            then chunks @ [DocumentChunk md5 articles chunk_txt page_num (length chunks) ''EU_AI_Act'']
            else chunks))
      else chunks)"
  by pat_completeness auto
termination
  by (relation "measure (\<lambda>(md5, articles, P, page_num, words, i, chunks). nat (int (length words) - i))")
     auto

declare window_loop.simps [simp del]


text \<open>
  One paragraph: re-windowed when its length in characters exceeds \<open>chunk_size\<close>, one
  chunk otherwise. \<open>None\<close> is the \<^verbatim>\<open>ValueError\<close> of \<^verbatim>\<open>range\<close> with step 0.
\<close>

definition chunk_paragraph ::
    "(string \<Rightarrow> string) \<Rightarrow> (string \<Rightarrow> string list) \<Rightarrow> processor \<Rightarrow> nat \<Rightarrow> string
      \<Rightarrow> 'e chunk list \<Rightarrow> 'e chunk list option" where
  "chunk_paragraph md5 articles P page_num para chunks =
     (if chunk_size P < int (length para) then
        (if chunk_size P - overlap P = 0 then None
         else Some (window_loop md5 articles P page_num (py_split para) 0 chunks))
      else Some (chunks @ [DocumentChunk md5 articles para page_num (length chunks) ''EU_AI_Act'']))"

text \<open>
  The paragraphs of one page, in order. An exception leaves the \<^verbatim>\<open>try\<close> block: the
  chunks appended so far stay and the rest of the page is skipped.
\<close>

fun chunk_paragraphs ::
    "(string \<Rightarrow> string) \<Rightarrow> (string \<Rightarrow> string list) \<Rightarrow> processor \<Rightarrow> nat \<Rightarrow> string list
      \<Rightarrow> 'e chunk list \<Rightarrow> 'e chunk list" where
  "chunk_paragraphs md5 articles P page_num [] chunks = chunks"
| "chunk_paragraphs md5 articles P page_num (para # paras) chunks =
     (case chunk_paragraph md5 articles P page_num para chunks of
        None \<Rightarrow> chunks
      | Some chunks' \<Rightarrow> chunk_paragraphs md5 articles P page_num paras chunks')"

definition page_paragraphs :: "nat \<Rightarrow> string \<Rightarrow> string list" where
  "page_paragraphs page_num txt =
     (let t = ''[Page '' @ str_nat (page_num + 1) @ ''] '' @ txt
      in map strip (filter (\<lambda>p. 50 < length (strip p)) (split_paragraphs [] t)))"

text \<open>What \<^verbatim>\<open>page.extract_text()\<close> did: returned text (possibly empty), or raised.\<close>

datatype page_result = Page_Text string | Page_Failed

fun chunk_pages ::
    "(string \<Rightarrow> string) \<Rightarrow> (string \<Rightarrow> string list) \<Rightarrow> processor \<Rightarrow> nat \<Rightarrow> page_result list
      \<Rightarrow> 'e chunk list \<Rightarrow> 'e chunk list" where
  "chunk_pages md5 articles P page_num [] chunks = chunks"
| "chunk_pages md5 articles P page_num (pg # pages) chunks =
     chunk_pages md5 articles P (Suc page_num) pages
       (case pg of
          Page_Failed \<Rightarrow> chunks
        | Page_Text txt \<Rightarrow>
            if txt = [] then chunks
            else chunk_paragraphs md5 articles P page_num (page_paragraphs page_num txt) chunks)"

text \<open>
  \<^verbatim>\<open>load_and_chunk_document\<close>. The document is \<open>None\<close> when no file is at the path, and
  the pages of the PDF otherwise.
\<close>

definition load_and_chunk_document ::
    "(string \<Rightarrow> string) \<Rightarrow> (string \<Rightarrow> string list) \<Rightarrow> processor \<Rightarrow> page_result list option
      \<Rightarrow> 'e chunk list" where
  "load_and_chunk_document md5 articles P document =
     (case document of None \<Rightarrow> [] | Some pages \<Rightarrow> chunk_pages md5 articles P 0 pages [])"

section \<open>The embedding service\<close>

text \<open>
  The collaborators of \<^verbatim>\<open>EmbeddingService\<close> are parameters: \<open>encode\<close> is the sentence
  encoder on one text (\<open>None\<close> when it raises), \<open>cosine_similarity q es\<close> is the row of
  similarities of \<open>q\<close> to the vectors \<open>es\<close> (\<open>None\<close> when it raises), and \<open>argsort\<close> is
  \<^verbatim>\<open>numpy.argsort\<close>. Similarities are values of a linear order; where the source
  compares them with a constant they are real numbers.
\<close>

text \<open>
  The pickled cache: the dictionary's two entries, each possibly absent. A cache file is
  absent, unreadable (\<^verbatim>\<open>pickle.load\<close> raises, or the object is no dictionary), or holds
  such a dictionary.
\<close>

record 'e cached =
  hashes :: "string list option"
  embeddings :: "'e list option"

datatype 'e cache_file = No_File | Unreadable | Cached "'e cached"

text \<open>
  The first half of \<^verbatim>\<open>generate_embeddings\<close>: the chunks with the cached vectors, or
  \<open>None\<close> when the function goes on to compute them (no file, an exception, or a cached
  hash list of another length).
\<close>

definition load_cached :: "'e cache_file \<Rightarrow> 'e chunk list \<Rightarrow> 'e chunk list option" where
  "load_cached file chunks =
     (case file of
        Cached c \<Rightarrow>
          if length (case hashes c of None \<Rightarrow> [] | Some hs \<Rightarrow> hs) = length chunks then
            (if chunks = [] then Some chunks
             else case embeddings c of
                    None \<Rightarrow> None
                  | Some es \<Rightarrow>
                      if length chunks \<le> length es
                      then Some (map (\<lambda>(chunk, e). chunk\<lparr>embedding := Some e\<rparr>) (zip chunks es))
                      else None)
          else None
      | _ \<Rightarrow> None)"

text \<open>\<^verbatim>\<open>self.model.encode(texts)\<close> on a list: every text encoded, or an exception.\<close>

fun encode_all :: "(string \<Rightarrow> 'e option) \<Rightarrow> string list \<Rightarrow> 'e list option" where
  "encode_all encode [] = Some []"
| "encode_all encode (t # ts) =
     (case encode t of
        None \<Rightarrow> None
      | Some e \<Rightarrow> (case encode_all encode ts of None \<Rightarrow> None | Some es \<Rightarrow> Some (e # es)))"

text \<open>
  \<^verbatim>\<open>generate_embeddings\<close>: the chunks with their vectors and the cache file afterwards.
  \<open>can_write\<close> says whether the cache file can be written; a failed write is logged and
  leaves the file as it was. An exception of the encoder is not caught.
\<close>

definition generate_embeddings ::
    "(string \<Rightarrow> 'e option) \<Rightarrow> bool \<Rightarrow> 'e chunk list \<Rightarrow> 'e cache_file
      \<Rightarrow> (error + 'e chunk list) \<times> 'e cache_file" where
  "generate_embeddings encode can_write chunks file =
     (case load_cached file chunks of
        Some chunks' \<Rightarrow> (Inr chunks', file)
      | None \<Rightarrow>
          (case encode_all encode (map chunk_text chunks) of
             None \<Rightarrow> (Inl EncoderError, file)
           | Some es \<Rightarrow>
               (Inr (map (\<lambda>(chunk, e). chunk\<lparr>embedding := Some e\<rparr>) (zip chunks es)),
                if can_write
                then Cached \<lparr>hashes = Some (map text_hash chunks), embeddings = Some es\<rparr>
                else file)))"

text \<open>
  The selection loop of \<^verbatim>\<open>find_relevant_chunks\<close> over the remaining indices. \<open>None\<close> is
  an index outside \<open>chunks_list\<close> (an \<^verbatim>\<open>IndexError\<close>, caught by the caller).
\<close>

fun select_unique ::
    "int \<Rightarrow> 'e chunk list \<Rightarrow> nat list \<Rightarrow> 'e chunk list \<Rightarrow> string set \<Rightarrow> 'e chunk list option" where
  "select_unique top_k chunks_list [] selected_chunks selected_hashes = Some selected_chunks"
| "select_unique top_k chunks_list (i # idx) selected_chunks selected_hashes =
     (if i < length chunks_list then
        (let chunk = chunks_list ! i in
         if text_hash chunk \<notin> selected_hashes then
           (if top_k \<le> int (length (selected_chunks @ [chunk])) then Some (selected_chunks @ [chunk])
            else select_unique top_k chunks_list idx (selected_chunks @ [chunk])
                   (insert (text_hash chunk) selected_hashes))
         else select_unique top_k chunks_list idx selected_chunks selected_hashes)
      else None)"

text \<open>
  \<^verbatim>\<open>find_relevant_chunks\<close>. Every exception inside the \<^verbatim>\<open>try\<close> block, and a chunk list
  with no vector at all, ends in \<^verbatim>\<open>chunks[:top_k]\<close>.
\<close>

definition find_relevant_chunks ::
    "(string \<Rightarrow> 'e option) \<Rightarrow> ('e \<Rightarrow> 'e list \<Rightarrow> 's list option) \<Rightarrow> ('s list \<Rightarrow> nat list)
      \<Rightarrow> string \<Rightarrow> 'e chunk list \<Rightarrow> int \<Rightarrow> 'e chunk list" where
  "find_relevant_chunks encode cosine_similarity argsort query chunks top_k =
     (case encode query of
        None \<Rightarrow> slice_to chunks top_k
      | Some query_emb \<Rightarrow>
          (let valid = filter (\<lambda>c. embedding c \<noteq> None) chunks in
           if valid = [] then slice_to chunks top_k
           else (case cosine_similarity query_emb (List.map_filter embedding valid) of
                   None \<Rightarrow> slice_to chunks top_k
                 | Some similarities \<Rightarrow>
                     (let top_idx = rev (slice_from (argsort similarities) (- top_k)) in
                      case select_unique top_k valid top_idx [] {} of
                        None \<Rightarrow> slice_to chunks top_k
                      | Some selected_chunks \<Rightarrow> selected_chunks))))"

text \<open>\<^verbatim>\<open>compute_similarity\<close>: 0.0 on any exception.\<close>

definition compute_similarity ::
    "(string \<Rightarrow> 'e option) \<Rightarrow> ('e \<Rightarrow> 'e list \<Rightarrow> real list option) \<Rightarrow> string \<Rightarrow> string \<Rightarrow> real" where
  "compute_similarity encode cosine_similarity text1 text2 =
     (case encode text1 of
        None \<Rightarrow> 0
      | Some emb1 \<Rightarrow>
          (case encode text2 of
             None \<Rightarrow> 0
           | Some emb2 \<Rightarrow>
               (case cosine_similarity emb1 [emb2] of Some (s # rest) \<Rightarrow> s | _ \<Rightarrow> 0)))"

section \<open>The advisor's state\<close>

record article_info =
  page :: nat
  excerpts :: "string list"
  full_text :: string

text \<open>
  The fields of \<^verbatim>\<open>LegalAdvisor\<close> that a consultation mutates. An entry of
  \<open>interview_history\<close> is the pair (question, answer); \<open>relevant_articles\<close> is the
  dictionary in insertion order.
\<close>

record advisor =
  model_description :: string
  pending_description :: string
  interview_history :: "(string \<times> string) list"
  asked_questions_texts :: "string list"
  relevant_articles :: "(string \<times> article_info) list"

definition MAX_QUESTIONS :: nat where "MAX_QUESTIONS = 15"
definition MIN_QUESTIONS :: nat where "MIN_QUESTIONS = 3"
definition CONFIDENCE_THRESHOLD :: real where "CONFIDENCE_THRESHOLD = 0.75"
definition DUPLICATE_SIMILARITY_THRESHOLD :: real where "DUPLICATE_SIMILARITY_THRESHOLD = 0.75"

text \<open>The state \<^verbatim>\<open>__init__\<close> sets up, and \<^verbatim>\<open>reset\<close>.\<close>

definition initial_advisor :: advisor where
  "initial_advisor = \<lparr>model_description = [], pending_description = [], interview_history = [],
                       asked_questions_texts = [], relevant_articles = []\<rparr>"

definition reset :: "advisor \<Rightarrow> advisor" where
  "reset a = a\<lparr>model_description := [], pending_description := [], interview_history := [],
                asked_questions_texts := [], relevant_articles := []\<rparr>"

section \<open>The prohibited-practice detectors\<close>































section \<open>Question generation\<close>

text \<open>
  The services an advisor holds after \<^verbatim>\<open>__init__\<close>: the encoder, the cosine
  similarity and \<^verbatim>\<open>argsort\<close> of its embedding service, and the embedded chunks of the
  reference document.
\<close>

record 'e services =
  env_encode :: "string \<Rightarrow> 'e option"
  env_cosine :: "'e \<Rightarrow> 'e list \<Rightarrow> real list option"
  env_argsort :: "real list \<Rightarrow> nat list"
  ai_act_chunks :: "'e chunk list"

text \<open>
  The generator's reply as a dictionary: the keys the advisor reads, \<open>None\<close> for a key
  that is absent (for \<open>next_question\<close> also the JSON \<^verbatim>\<open>null\<close>). A next question that is
  present is a string and a confidence that is present is a number; a number is kept as
  a real, which every float that is not NaN or infinite is.
\<close>

record assessment =
  assessment_status :: "string option"
  confidence :: "real option"
  risk_hypothesis :: "string option"
  reasoning :: "string option"
  next_question :: "string option"

text \<open>
  What one call of the text-completion service gave \<^verbatim>\<open>_generate_question\<close>, once the
  code fences are removed and \<^verbatim>\<open>json.loads\<close> has run: the call raised; the text is no
  JSON (\<^verbatim>\<open>JSONDecodeError\<close>); the JSON value is no object, so that \<^verbatim>\<open>data.get\<close>
  raises; or an object. The prompt is not part of the model: the reply of the service is
  an input of each round.
\<close>

datatype chat_reply = Chat_Raised | Not_JSON | Not_An_Object | Reply assessment

text \<open>\<^verbatim>\<open>_is_duplicate_question\<close>: some of the last three asked questions is too similar.\<close>

definition is_duplicate_question :: "'e services \<Rightarrow> advisor \<Rightarrow> string \<Rightarrow> bool" where
  "is_duplicate_question env a new_question =
     (if asked_questions_texts a = [] then False
      else list_ex (\<lambda>asked_q. DUPLICATE_SIMILARITY_THRESHOLD
                                < compute_similarity (env_encode env) (env_cosine env) new_question asked_q)
             (slice_from (asked_questions_texts a) (- 3)))"

definition fallbacks :: "string list" where
  "fallbacks =
    [''What specific types of personal data does your AI system process?'',
     ''Describe the decision-making process: fully automated or human-reviewed?'',
     ''What are the consequences if your system makes an incorrect decision?'',
     ''In which EU member states will this system be deployed?'',
     ''What measures ensure accuracy and prevent bias?'',
     ''How are users notified they're interacting with an AI system?'',
     ''What documentation exists for training data and methodology?'',
     ''Describe your system's impact on fundamental rights.'']"

text \<open>\<^verbatim>\<open>_generate_fallback_question\<close>: the first fallback that is no duplicate, recorded as asked.\<close>

definition generate_fallback_question :: "'e services \<Rightarrow> advisor \<Rightarrow> string option \<times> advisor" where
  "generate_fallback_question env a =
     (case find (\<lambda>question. \<not> is_duplicate_question env a question) fallbacks of
        Some question \<Rightarrow>
          (Some question, a\<lparr>asked_questions_texts := asked_questions_texts a @ [question]\<rparr>)
      | None \<Rightarrow> (None, a))"

text \<open>
  \<^verbatim>\<open>_generate_question\<close> from the reply on: the assessment, or the exception that
  leaves the method, and the advisor.
\<close>

definition generate_question ::
    "'e services \<Rightarrow> chat_reply \<Rightarrow> advisor \<Rightarrow> (error + assessment) \<times> advisor" where
  "generate_question env reply a =
     (case reply of
        Chat_Raised \<Rightarrow> (Inl ChatError, a)
      | Not_An_Object \<Rightarrow> (Inl AttributeError, a)
      | Reply data \<Rightarrow>
          (case next_question data of
             None \<Rightarrow> (Inr data, a)
           | Some q \<Rightarrow>
               if q = [] then (Inr data, a)
               else if is_duplicate_question env a q then
                 (Inr \<lparr>assessment_status = Some ''ready_to_conclude'',
                       confidence = Some 0.9,
                       risk_hypothesis =
                         Some (case risk_hypothesis data of None \<Rightarrow> ''assessment_needed'' | Some r \<Rightarrow> r),
                       reasoning = Some ''Sufficient information gathered'',
                       next_question = None\<rparr>, a)
               else (Inr data, a\<lparr>asked_questions_texts := asked_questions_texts a @ [q]\<rparr>))
      | Not_JSON \<Rightarrow>
          (case generate_fallback_question env a of
             (Some fallback_q, a') \<Rightarrow>
               (Inr \<lparr>assessment_status = Some ''need_more_info'', confidence = Some 0.5,
                     risk_hypothesis = None, reasoning = None,
                     next_question = Some fallback_q\<rparr>, a')
           | (None, a') \<Rightarrow>
               (Inr \<lparr>assessment_status = Some ''ready_to_conclude'', confidence = Some 0.7,
                     risk_hypothesis = None, reasoning = None, next_question = None\<rparr>, a')))"

text \<open>\<^verbatim>\<open>_should_conclude\<close>.\<close>

definition should_conclude :: "advisor \<Rightarrow> assessment \<Rightarrow> bool" where
  "should_conclude a assessment =
     (if length (interview_history a) < MIN_QUESTIONS then False
      else if MAX_QUESTIONS \<le> length (interview_history a) then True
      else if next_question assessment = None then True
      else if assessment_status assessment = Some ''ready_to_conclude''
              \<and> CONFIDENCE_THRESHOLD \<le> (case confidence assessment of None \<Rightarrow> 0 | Some c \<Rightarrow> c)
           then True
      else False)"

section \<open>The final report\<close>

text \<open>
  \<^verbatim>\<open>_extract_articles_with_context\<close>: the first chunk that names an article gives its
  page and text.
\<close>

definition add_article :: "'e chunk \<Rightarrow> string \<Rightarrow> (string \<times> article_info) list \<Rightarrow> (string \<times> article_info) list" where
  "add_article chunk art articles_info =
     (if map_of articles_info art = None
      then articles_info @ [(art, \<lparr>page = page_number chunk + 1, excerpts = [],
                                    full_text = take 500 (chunk_text chunk)\<rparr>)]
      else articles_info)"

definition extract_articles_with_context :: "'e chunk list \<Rightarrow> (string \<times> article_info) list" where
  "extract_articles_with_context chunks =
     fold (\<lambda>chunk articles_info. fold (add_article chunk) (extracted_articles chunk) articles_info)
       chunks []"

text \<open>
  The texts of the source are written with \<open>?\<close> for each character outside ASCII.
\<close>

definition history_str :: "(string \<times> string) list \<Rightarrow> string" where
  "history_str history =
     join ''\<newline>''
       (map (\<lambda>(i, (q, an)). ''Q'' @ str_nat (i + 1) @ '': '' @ q @ ''\<newline>'' @
                             ''A'' @ str_nat (i + 1) @ '': '' @ an)
            (enumerate 0 history))"

definition article_context :: "(string \<times> article_info) list \<Rightarrow> string" where
  "article_context articles_info =
     join ''\<newline>''
       (map (\<lambda>(art, info). ''\<newline>**Article '' @ art @ ''** (Page '' @ str_nat (page info) @ ''):\<newline>'' @
                            take 400 (full_text info) @ ''...'')
            (take 20 (sort_key fst articles_info)))"

text \<open>The user prompt of \<^verbatim>\<open>_generate_final_analysis\<close>.\<close>

definition final_analysis_prompt :: "advisor \<Rightarrow> (string \<times> article_info) list \<Rightarrow> string" where
  "final_analysis_prompt a articles_info =
     ''GENERATE COMPREHENSIVE EU AI ACT COMPLIANCE REPORT\<newline>\<newline>SYSTEM ASSESSED:\<newline>'' @
     model_description a @
     ''\<newline>\<newline>INTERVIEW DATA ('' @ str_nat (length (interview_history a)) @ '' questions):\<newline>'' @
     history_str (interview_history a) @
     ''\<newline>\<newline>RELEVANT EU AI ACT ARTICLES:\<newline>'' @
     take 3000 (article_context articles_info) @
     ''\<newline>\<newline>Generate complete compliance report with risk level, violations, and recommendations.''"

text \<open>\<^verbatim>\<open>_generate_emergency_report\<close>.\<close>

definition generate_emergency_report :: "advisor \<Rightarrow> (string \<times> article_info) list \<Rightarrow> string" where
  "generate_emergency_report a articles_info =
     ''# EU AI ACT PRELIMINARY ASSESSMENT\<newline>\<newline>'' @
     ''????? **AUTOMATED ASSESSMENT - LEGAL REVIEW REQUIRED**\<newline>\<newline>'' @
     ''## SYSTEM DESCRIPTION\<newline>'' @
     take 500 (model_description a) @
     ''\<newline>\<newline>## INTERVIEW SUMMARY\<newline>Total questions: '' @
     str_nat (length (interview_history a)) @
     ''\<newline>\<newline>## POTENTIALLY RELEVANT ARTICLES\<newline>'' @
     join ''\<newline>''
       (map (\<lambda>(art, info). ''- Article '' @ art @ '' (Page '' @ str_nat (page info) @ '')'')
            (take 15 (sort_key fst articles_info))) @
     ''\<newline>\<newline>## RECOMMENDED ACTIONS\<newline>'' @
     ''1. Consult EU AI Act legal specialist\<newline>'' @
     ''2. Determine definitive risk classification\<newline>'' @
     ''3. Begin conformity assessment if high-risk\<newline>\<newline>'' @
     ''**DISCLAIMER:** NOT a legal opinion. Professional counsel required.''"

text \<open>
  \<^verbatim>\<open>_generate_final_analysis\<close>. \<open>report_chat\<close> is the text-completion service on this
  call, as a function of the user prompt (the system prompt is constant): \<open>None\<close> when it
  raises, which the method catches.
\<close>

definition generate_final_analysis ::
    "'e services \<Rightarrow> (string \<Rightarrow> string option) \<Rightarrow> advisor \<Rightarrow> string \<times> advisor" where
  "generate_final_analysis env report_chat a =
     (let all_content = model_description a @ '' '' @
                        join '' '' (map (\<lambda>(q, an). q @ '' '' @ an) (interview_history a));
          relevant_chunks = find_relevant_chunks (env_encode env) (env_cosine env) (env_argsort env)
                              all_content (ai_act_chunks env) 15;
          articles_info = extract_articles_with_context relevant_chunks;
          a' = a\<lparr>relevant_articles := articles_info\<rparr>
      in case report_chat (final_analysis_prompt a' articles_info) of
           Some report \<Rightarrow> (report, a')
         | None \<Rightarrow> (generate_emergency_report a' articles_info, a'))"

section \<open>The interview\<close>

text \<open>
  \<^verbatim>\<open>ask_next_question\<close> and \<^verbatim>\<open>process_answer\<close>: the text and the done flag, or the
  exception, and the advisor as the call leaves it.
\<close>

definition ask_next_question ::
    "'e services \<Rightarrow> chat_reply \<Rightarrow> (string \<Rightarrow> string option) \<Rightarrow> advisor
      \<Rightarrow> (error + string \<times> bool) \<times> advisor" where
  "ask_next_question env reply report_chat a =
     (case generate_question env reply a of
        (Inl e, a') \<Rightarrow> (Inl e, a')
      | (Inr assessment, a') \<Rightarrow>
          if should_conclude a' assessment
          then (case generate_final_analysis env report_chat a' of (report, a'') \<Rightarrow> (Inr (report, True), a''))
          else (case next_question assessment of
                  None \<Rightarrow>
                    (case generate_final_analysis env report_chat a' of (report, a'') \<Rightarrow> (Inr (report, True), a''))
                | Some next_q \<Rightarrow>
                    if next_q = []
                    then (case generate_final_analysis env report_chat a' of
                            (report, a'') \<Rightarrow> (Inr (report, True), a''))
                    else (Inr (strip next_q, False), a')))"






section \<open>The report for a prohibited system\<close>








section \<open>Inputs used in the theorems\<close>


text \<open>
  Two chunks and a cache file written for another corpus of two chunks. Vectors are
  natural numbers here, the digest is the text itself and no article is extracted; the
  encoder gives the length of the text.
\<close>

definition stale_chunks :: "nat chunk list" where
  "stale_chunks =
     [DocumentChunk (\<lambda>t. t) (\<lambda>t. []) ''alpha'' 0 0 ''EU_AI_Act'',
      DocumentChunk (\<lambda>t. t) (\<lambda>t. []) ''beta'' 0 1 ''EU_AI_Act'']"

definition stale_cache :: "nat cache_file" where
  "stale_cache = Cached \<lparr>hashes = Some [''gamma'', ''delta''], embeddings = Some [1, 2]\<rparr>"

text \<open>
  Three embedded chunks, the first and the last with the same text, and an embedding
  service on them: the query is encoded as 0, the similarity of a chunk is its vector,
  and \<open>argsort_stable\<close> sorts the indices by value.
\<close>

definition demo_chunks :: "nat chunk list" where
  "demo_chunks =
     [(DocumentChunk (\<lambda>t. t) (\<lambda>t. []) ''alpha'' 0 0 ''EU_AI_Act'')\<lparr>embedding := Some 5\<rparr>,
      (DocumentChunk (\<lambda>t. t) (\<lambda>t. []) ''beta'' 0 1 ''EU_AI_Act'')\<lparr>embedding := Some 9\<rparr>,
      (DocumentChunk (\<lambda>t. t) (\<lambda>t. []) ''alpha'' 1 2 ''EU_AI_Act'')\<lparr>embedding := Some 7\<rparr>]"

definition argsort_stable :: "nat list \<Rightarrow> nat list" where
  "argsort_stable xs = sort_key (\<lambda>i. xs ! i) [0..<length xs]"


definition echo_services :: "string services" where
  "echo_services = \<lparr>env_encode = (\<lambda>t. Some t),
                     env_cosine = (\<lambda>q es. Some (map (\<lambda>e. if e = q then 1 else 0) es)),
                     env_argsort = (\<lambda>xs. []), ai_act_chunks = []\<rparr>"

definition canned_report :: "string \<Rightarrow> string option" where
  "canned_report prompt = Some ''REPORT''"


definition asking :: "string \<Rightarrow> assessment" where
  "asking q = \<lparr>assessment_status = Some ''need_more_info'', confidence = Some 0.4,
                risk_hypothesis = None, reasoning = None, next_question = Some q\<rparr>"


text \<open>
  Advisors: after the description of a chatbot; with one question asked; after three
  answered rounds that ended the interview; with fourteen answered rounds; and with a
  pending description after a warning.
\<close>

definition chatbot_advisor :: advisor where
  "chatbot_advisor = initial_advisor\<lparr>model_description := ''A chatbot answers customer FAQs''\<rparr>"

definition asked_once :: advisor where
  "asked_once = chatbot_advisor\<lparr>asked_questions_texts := [''What is its purpose?'']\<rparr>"





section \<open>The rule engine on the train-station description\<close>





section \<open>The chunker on one paragraph\<close>



















section \<open>The embedding cache\<close>

text \<open>
  C2 (the code departs from the specification). The cached hash list \<open>[gamma, delta]\<close> differs
  from the hashes \<open>[alpha, beta]\<close> of the current chunks in both positions and has the
  same length. \<^verbatim>\<open>generate_embeddings\<close> does not recompute: the chunks get the cached
  vectors 1 and 2, not the vectors 5 and 4 of the encoder, and the cache file stays.
\<close>

theorem C2_stale_cache_of_equal_length_is_used:
  "map text_hash stale_chunks = [''alpha'', ''beta'']
   \<and> stale_cache = Cached \<lparr>hashes = Some [''gamma'', ''delta''], embeddings = Some [1, 2]\<rparr>
   \<and> encode_all (\<lambda>t. Some (length t)) (map chunk_text stale_chunks) = Some [5, 4]
   \<and> map_sum id (map embedding) (fst (generate_embeddings (\<lambda>t. Some (length t)) True stale_chunks stale_cache))
       = Inr [Some 1, Some 2]
   \<and> snd (generate_embeddings (\<lambda>t. Some (length t)) True stale_chunks stale_cache) = stale_cache"
  by (simp add: stale_chunks_def stale_cache_def generate_embeddings_def load_cached_def
        DocumentChunk_def)

section \<open>Retrieval\<close>

lemma select_unique_props:
  assumes "select_unique k cl idx sel hs = Some r"
      and "hs = set (map text_hash sel)"
      and "distinct (map text_hash sel)"
      and "int (length sel) < k"
  shows "distinct (map text_hash r) \<and> int (length r) \<le> k \<and>
         (\<exists>js. r = sel @ map ((!) cl) js \<and> set js \<subseteq> set idx \<and> (\<forall>j\<in>set js. j < length cl)
               \<and> (sorted_wrt R idx \<longrightarrow> sorted_wrt R js))"
  using assms
proof (induction idx arbitrary: sel hs)
  case Nil
  then show ?case by auto
next
  case (Cons i idx)
  from Cons.prems(1) have i: "i < length cl" by (auto split: if_splits)
  show ?case
  proof (cases "text_hash (cl ! i) \<in> hs")
    case True
    with Cons.prems i have "select_unique k cl idx sel hs = Some r" by (simp add: Let_def)
    from Cons.IH[OF this Cons.prems(2,3,4)] obtain js where
      d: "distinct (map text_hash r)" "int (length r) \<le> k" and
      js: "r = sel @ map ((!) cl) js" "set js \<subseteq> set idx" "\<forall>j\<in>set js. j < length cl"
          "sorted_wrt R idx \<longrightarrow> sorted_wrt R js" by blast
    have "set js \<subseteq> set (i # idx)" using js(2) by auto
    moreover have "sorted_wrt R (i # idx) \<longrightarrow> sorted_wrt R js" using js(4) by simp
    ultimately show ?thesis using d js(1,3) by blast
  next
    case False
    show ?thesis
    proof (cases "k \<le> int (length (sel @ [cl ! i]))")
      case True
      with False Cons.prems i have r: "r = sel @ [cl ! i]" by (simp add: Let_def)
      have "distinct (map text_hash r)" using r False Cons.prems(2,3) by simp
      moreover have "int (length r) \<le> k" using r Cons.prems(4) by simp
      moreover have "r = sel @ map ((!) cl) [i] \<and> set [i] \<subseteq> set (i # idx)
           \<and> (\<forall>j\<in>set [i]. j < length cl) \<and> (sorted_wrt R (i # idx) \<longrightarrow> sorted_wrt R [i])"
        using r i by simp
      ultimately show ?thesis by blast
    next
      case nk: False
      with False Cons.prems i
      have s: "select_unique k cl idx (sel @ [cl ! i]) (insert (text_hash (cl ! i)) hs) = Some r"
        by (simp add: Let_def)
      have h2: "insert (text_hash (cl ! i)) hs = set (map text_hash (sel @ [cl ! i]))"
        using Cons.prems(2) by simp
      have d2: "distinct (map text_hash (sel @ [cl ! i]))"
        using False Cons.prems(2,3) by simp
      have l2: "int (length (sel @ [cl ! i])) < k" using nk by simp
      from Cons.IH[OF s h2 d2 l2] obtain js where
        d: "distinct (map text_hash r)" "int (length r) \<le> k" and
        js: "r = (sel @ [cl ! i]) @ map ((!) cl) js" "set js \<subseteq> set idx" "\<forall>j\<in>set js. j < length cl"
            "sorted_wrt R idx \<longrightarrow> sorted_wrt R js" by blast
      have "r = sel @ map ((!) cl) (i # js)" using js(1) by simp
      moreover have "set (i # js) \<subseteq> set (i # idx)" using js(2) by auto
      moreover have "\<forall>j\<in>set (i # js). j < length cl" using js(3) i by simp
      moreover have "sorted_wrt R (i # idx) \<longrightarrow> sorted_wrt R (i # js)" using js(2,4) by auto
      ultimately show ?thesis using d by blast
    qed
  qed
qed

lemma select_unique_Some:
  "\<forall>i\<in>set idx. i < length cl \<Longrightarrow> \<exists>r. select_unique k cl idx sel hs = Some r"
  by (induction idx arbitrary: sel hs) (auto simp: Let_def)

lemma top_idx_descending:
  assumes "sorted (map ((!) sims) as)"
  shows "sorted_wrt (\<lambda>i j. sims ! j \<le> sims ! (i::nat)) (rev (slice_from as m))"
proof -
  have "sorted_wrt (\<lambda>i j. sims ! i \<le> sims ! j) as"
    using assms by (simp add: sorted_wrt_map)
  then have "sorted_wrt (\<lambda>i j. sims ! i \<le> sims ! j) (slice_from as m)"
    unfolding slice_from_def by (rule sorted_wrt_drop)
  then show ?thesis by (simp add: sorted_wrt_rev)
qed

lemma find_relevant_chunks_main:
  fixes sims :: "'s::linorder list"
  assumes enc: "encode query = Some query_emb"
      and valid: "filter (\<lambda>c. embedding c \<noteq> None) chunks \<noteq> []"
      and cos: "cosine_similarity query_emb
                  (List.map_filter embedding (filter (\<lambda>c. embedding c \<noteq> None) chunks)) = Some sims"
      and len: "length sims = length (filter (\<lambda>c. embedding c \<noteq> None) chunks)"
      and srt: "sorted (map ((!) sims) (argsort sims))"
      and rng: "\<forall>i\<in>set (argsort sims). i < length sims"
      and k: "1 \<le> top_k"
  shows "length (find_relevant_chunks encode cosine_similarity argsort query chunks top_k)
           \<le> min (nat top_k) (length chunks)
       \<and> distinct (map text_hash (find_relevant_chunks encode cosine_similarity argsort query chunks top_k))
       \<and> (\<exists>js. find_relevant_chunks encode cosine_similarity argsort query chunks top_k
                  = map ((!) (filter (\<lambda>c. embedding c \<noteq> None) chunks)) js
               \<and> (\<forall>j\<in>set js. j < length sims)
               \<and> sorted_wrt (\<lambda>i j. sims ! j \<le> sims ! i) js)"
proof -
  let ?valid = "filter (\<lambda>c. embedding c \<noteq> None) chunks"
  let ?top = "rev (slice_from (argsort sims) (- top_k))"
  let ?R = "\<lambda>i j. sims ! j \<le> sims ! (i::nat)"
  have sub: "set ?top \<subseteq> set (argsort sims)"
    by (auto simp: slice_from_def dest: in_set_dropD)
  then have "\<forall>i\<in>set ?top. i < length ?valid" using rng len by auto
  from select_unique_Some[OF this] obtain r where
    r: "select_unique top_k ?valid ?top [] {} = Some r" by blast
  have res: "find_relevant_chunks encode cosine_similarity argsort query chunks top_k = r"
    using enc valid cos r by (simp add: find_relevant_chunks_def Let_def)
  from select_unique_props[OF r, of ?R] k obtain js where
    d: "distinct (map text_hash r)" "int (length r) \<le> top_k" and
    js: "r = map ((!) ?valid) js" "set js \<subseteq> set ?top" "\<forall>j\<in>set js. j < length ?valid"
        "sorted_wrt ?R ?top \<longrightarrow> sorted_wrt ?R js" by auto
  have "sorted_wrt ?R js" using js(4) top_idx_descending[OF srt] by blast
  moreover have "length r \<le> length chunks"
  proof -
    have dr: "distinct r" using d(1) by (simp add: distinct_map)
    have "set r \<subseteq> set ?valid" using js(1,3) nth_mem[of _ ?valid] by auto
    then have "set r \<subseteq> set chunks" by auto
    then have "card (set r) \<le> card (set chunks)" by (simp add: card_mono)
    then show ?thesis using dr by (metis card_length distinct_card le_trans)
  qed
  moreover have "length r \<le> nat top_k" using d(2) by simp
  ultimately show ?thesis using res d(1) js(1,3) len by auto
qed

text \<open>
  C5 (as stated, refuted). When the encoder fails, \<^verbatim>\<open>find_relevant_chunks\<close> returns
  \<^verbatim>\<open>chunks[:top_k]\<close>: on the three chunks, whose first and last have the same text and
  so the same content hash, it returns all three.
\<close>

theorem C5_fallback_repeats_a_hash_counterexample:
  "\<not> distinct (map text_hash
        (find_relevant_chunks (\<lambda>q. None) (\<lambda>q es. Some es) argsort_stable ''query'' demo_chunks 3))"
  by (simp add: find_relevant_chunks_def demo_chunks_def DocumentChunk_def slice_to_def
        slice_bound_def)

text \<open>
  C5 (amended). When the encoder fails or no chunk carries a vector, the result is the
  first \<open>top_k\<close> chunks in corpus order. When the encoder and the cosine similarity
  answer (one similarity per embedded chunk), \<^verbatim>\<open>argsort\<close> returns indices of the
  similarity list in ascending order of similarity, and \<open>top_k\<close> is at least 1, the
  result has at most \<open>min top_k (number of chunks)\<close> items, no two of them have the
  same content hash, and they are embedded chunks in non-increasing order of similarity.
\<close>

theorem C5_find_relevant_chunks:
  fixes sims :: "'s::linorder list"
  shows
  "(encode query = None \<or> filter (\<lambda>c. embedding c \<noteq> None) chunks = []
      \<longrightarrow> find_relevant_chunks encode cosine_similarity argsort query chunks top_k
            = slice_to chunks top_k)
   \<and> (encode query = Some query_emb
       \<and> filter (\<lambda>c. embedding c \<noteq> None) chunks \<noteq> []
       \<and> cosine_similarity query_emb
            (List.map_filter embedding (filter (\<lambda>c. embedding c \<noteq> None) chunks)) = Some sims
       \<and> length sims = length (filter (\<lambda>c. embedding c \<noteq> None) chunks)
       \<and> sorted (map ((!) sims) (argsort sims))
       \<and> (\<forall>i\<in>set (argsort sims). i < length sims)
       \<and> 1 \<le> top_k
      \<longrightarrow> length (find_relevant_chunks encode cosine_similarity argsort query chunks top_k)
             \<le> min (nat top_k) (length chunks)
          \<and> distinct (map text_hash
               (find_relevant_chunks encode cosine_similarity argsort query chunks top_k))
          \<and> (\<exists>js. find_relevant_chunks encode cosine_similarity argsort query chunks top_k
                     = map ((!) (filter (\<lambda>c. embedding c \<noteq> None) chunks)) js
                  \<and> (\<forall>j\<in>set js. j < length sims)
                  \<and> sorted_wrt (\<lambda>i j. sims ! j \<le> sims ! i) js))"
proof (intro conjI impI)
  assume "encode query = None \<or> filter (\<lambda>c. embedding c \<noteq> None) chunks = []"
  then show "find_relevant_chunks encode cosine_similarity argsort query chunks top_k
             = slice_to chunks top_k"
    by (auto simp: find_relevant_chunks_def Let_def split: option.splits)
next
  assume h: "encode query = Some query_emb
       \<and> filter (\<lambda>c. embedding c \<noteq> None) chunks \<noteq> []
       \<and> cosine_similarity query_emb
            (List.map_filter embedding (filter (\<lambda>c. embedding c \<noteq> None) chunks)) = Some sims
       \<and> length sims = length (filter (\<lambda>c. embedding c \<noteq> None) chunks)
       \<and> sorted (map ((!) sims) (argsort sims))
       \<and> (\<forall>i\<in>set (argsort sims). i < length sims)
       \<and> 1 \<le> top_k"
  then have m: "length (find_relevant_chunks encode cosine_similarity argsort query chunks top_k)
           \<le> min (nat top_k) (length chunks)
       \<and> distinct (map text_hash (find_relevant_chunks encode cosine_similarity argsort query chunks top_k))
       \<and> (\<exists>js. find_relevant_chunks encode cosine_similarity argsort query chunks top_k
                  = map ((!) (filter (\<lambda>c. embedding c \<noteq> None) chunks)) js
               \<and> (\<forall>j\<in>set js. j < length sims)
               \<and> sorted_wrt (\<lambda>i j. sims ! j \<le> sims ! i) js)"
    using find_relevant_chunks_main[of encode query query_emb chunks cosine_similarity sims
            argsort top_k]
    by blast
  from m show "length (find_relevant_chunks encode cosine_similarity argsort query chunks top_k)
           \<le> min (nat top_k) (length chunks)" by blast
  from m show "distinct (map text_hash
               (find_relevant_chunks encode cosine_similarity argsort query chunks top_k))" by blast
  from m show "\<exists>js. find_relevant_chunks encode cosine_similarity argsort query chunks top_k
                     = map ((!) (filter (\<lambda>c. embedding c \<noteq> None) chunks)) js
                  \<and> (\<forall>j\<in>set js. j < length sims)
                  \<and> sorted_wrt (\<lambda>i j. sims ! j \<le> sims ! i) js" by blast
qed

lemma demo_argsort: "argsort_stable [5, 9, 7] = [0, 2, 1]"
  by (simp add: argsort_stable_def upt_conv_Cons)

lemma demo_valid: "filter (\<lambda>c. embedding c \<noteq> None) demo_chunks = demo_chunks"
  by (simp add: demo_chunks_def)

lemma demo_embeddings: "List.map_filter embedding demo_chunks = [5, 9, 7]"
  by (simp add: demo_chunks_def List.map_filter_def)

text \<open>
  The amended C5 at work on the three chunks with \<open>top_k = 3\<close>: the similarities are
  5, 9 and 7, and the result has at most three items with distinct hashes; with a
  failing encoder the result is the first three chunks.
\<close>

theorem C5_find_relevant_chunks_witness:
  "find_relevant_chunks (\<lambda>q. None) (\<lambda>q es. Some es) argsort_stable ''query'' demo_chunks 3
     = slice_to demo_chunks 3
   \<and> length (find_relevant_chunks (\<lambda>q. Some 0) (\<lambda>q es. Some es) argsort_stable ''query'' demo_chunks 3)
       \<le> min (nat 3) (length demo_chunks)
   \<and> distinct (map text_hash
       (find_relevant_chunks (\<lambda>q. Some 0) (\<lambda>q es. Some es) argsort_stable ''query'' demo_chunks 3))"
  using C5_find_relevant_chunks[of "\<lambda>q. None" "''query''" demo_chunks "\<lambda>q es. Some es"
          argsort_stable 3 0 "[5, 9, 7]"]
        C5_find_relevant_chunks[of "\<lambda>q. Some 0" "''query''" demo_chunks "\<lambda>q es. Some es"
          argsort_stable 3 0 "[5, 9, 7]"]
  by (simp add: demo_valid demo_embeddings demo_argsort) (simp add: demo_chunks_def)

section \<open>Steps of the interview\<close>

lemma final_analysis_state:
  "generate_final_analysis env chat a = (r, a') \<Longrightarrow>
     \<exists>info. a' = a\<lparr>relevant_articles := info\<rparr>"
  by (auto simp: generate_final_analysis_def Let_def split: option.splits)












section \<open>Conclusion of the interview\<close>

















text \<open>
  C7. When the parsed reply proposes a non-empty next question whose similarity to one of
  the last three asked questions exceeds the threshold 0.75, \<^verbatim>\<open>_generate_question\<close>
  returns the forced conclusion (ready to conclude, confidence 0.9, no next question) and
  leaves the advisor as it was; \<^verbatim>\<open>ask_next_question\<close> then returns the final report with
  done = true, so the question is neither surfaced nor recorded as asked.
\<close>

theorem C7_duplicate_question_suppressed:
  assumes "next_question data = Some q" and "q \<noteq> []"
      and "\<exists>asked_q \<in> set (slice_from (asked_questions_texts a) (- 3)).
             DUPLICATE_SIMILARITY_THRESHOLD
               < compute_similarity (env_encode env) (env_cosine env) q asked_q"
  shows "generate_question env (Reply data) a
           = (Inr \<lparr>assessment_status = Some ''ready_to_conclude'', confidence = Some 0.9,
                   risk_hypothesis = Some (case risk_hypothesis data of
                                             None \<Rightarrow> ''assessment_needed'' | Some r \<Rightarrow> r),
                   reasoning = Some ''Sufficient information gathered'',
                   next_question = None\<rparr>, a)
       \<and> ask_next_question env (Reply data) chat a
           = (Inr (fst (generate_final_analysis env chat a), True),
              snd (generate_final_analysis env chat a))
       \<and> asked_questions_texts (snd (ask_next_question env (Reply data) chat a))
           = asked_questions_texts a"
proof -
  from assms(3) have ne: "asked_questions_texts a \<noteq> []" by (auto simp: slice_from_def)
  with assms(3) have dup: "is_duplicate_question env a q"
    by (auto simp: is_duplicate_question_def DUPLICATE_SIMILARITY_THRESHOLD_def list_ex_iff)
  have g: "generate_question env (Reply data) a
           = (Inr \<lparr>assessment_status = Some ''ready_to_conclude'', confidence = Some 0.9,
                   risk_hypothesis = Some (case risk_hypothesis data of
                                             None \<Rightarrow> ''assessment_needed'' | Some r \<Rightarrow> r),
                   reasoning = Some ''Sufficient information gathered'',
                   next_question = None\<rparr>, a)"
    using assms(1,2) dup by (simp add: generate_question_def)
  have k: "ask_next_question env (Reply data) chat a
           = (Inr (fst (generate_final_analysis env chat a), True),
              snd (generate_final_analysis env chat a))"
    unfolding ask_next_question_def g by (simp add: case_prod_beta)
  obtain r a2 where f: "generate_final_analysis env chat a = (r, a2)"
    by (cases "generate_final_analysis env chat a")
  from final_analysis_state[OF f] have "asked_questions_texts a2 = asked_questions_texts a" by auto
  with g k f show ?thesis by simp
qed

lemma echo_similarity: "compute_similarity (env_encode echo_services) (env_cosine echo_services) q q = 1"
  by (simp add: compute_similarity_def echo_services_def)

text \<open>
  C7 on an advisor that has asked one question, when the generator proposes it again.
\<close>

theorem C7_duplicate_question_suppressed_witness:
  "generate_question echo_services (Reply (asking ''What is its purpose?'')) asked_once
     = (Inr \<lparr>assessment_status = Some ''ready_to_conclude'', confidence = Some 0.9,
             risk_hypothesis = Some ''assessment_needed'',
             reasoning = Some ''Sufficient information gathered'',
             next_question = None\<rparr>, asked_once)
   \<and> asked_questions_texts (snd (ask_next_question echo_services
         (Reply (asking ''What is its purpose?'')) canned_report asked_once))
     = [''What is its purpose?'']"
proof -
  have n: "next_question (asking ''What is its purpose?'') = Some ''What is its purpose?''"
    by (simp add: asking_def)
  have h: "\<exists>asked_q \<in> set (slice_from (asked_questions_texts asked_once) (- 3)).
             DUPLICATE_SIMILARITY_THRESHOLD
               < compute_similarity (env_encode echo_services) (env_cosine echo_services)
                   ''What is its purpose?'' asked_q"
    by (simp add: asked_once_def slice_from_def slice_bound_def echo_similarity
          DUPLICATE_SIMILARITY_THRESHOLD_def)
  have r: "risk_hypothesis (asking ''What is its purpose?'') = None"
    by (simp add: asking_def)
  have q: "asked_questions_texts asked_once = [''What is its purpose?'']"
    by (simp add: asked_once_def)
  have ne: "''What is its purpose?'' \<noteq> []" by simp
  note t = C7_duplicate_question_suppressed[OF n ne h, of canned_report]
  from t[THEN conjunct1] have 1:
    "generate_question echo_services (Reply (asking ''What is its purpose?'')) asked_once
     = (Inr \<lparr>assessment_status = Some ''ready_to_conclude'', confidence = Some 0.9,
             risk_hypothesis = Some ''assessment_needed'',
             reasoning = Some ''Sufficient information gathered'',
             next_question = None\<rparr>, asked_once)"
    by (simp add: r)
  from t[THEN conjunct2, THEN conjunct2] have 2:
    "asked_questions_texts (snd (ask_next_question echo_services
         (Reply (asking ''What is its purpose?'')) canned_report asked_once))
     = [''What is its purpose?'']"
    by (simp add: q)
  from 1 2 show ?thesis by (rule conjI)
qed






end
